theory Spec2Isabelle
  imports Complex_Main "HOL-Library.Sublist"
begin

section \<open>Sample values\<close>

text \<open>
  The program computes on numpy \<open>float64\<close> values. A value is modelled as a real number
  or one of the three special values; finite arithmetic is exact (rounding and overflow
  are not modelled), the special values follow IEEE 754 as numpy implements it. The sign
  of zero is not represented; the program only ever divides by an integer
  (\<open>window_size\<close> or an element count), never by a computed float.
\<close>

datatype pyfloat = Fin real | PInf | NInf | NaN

fun fadd :: "pyfloat \<Rightarrow> pyfloat \<Rightarrow> pyfloat" where
  "fadd NaN y = NaN"
| "fadd x NaN = NaN"
| "fadd PInf NInf = NaN"
| "fadd NInf PInf = NaN"
| "fadd PInf y = PInf"
| "fadd x PInf = PInf"
| "fadd NInf y = NInf"
| "fadd x NInf = NInf"
| "fadd (Fin a) (Fin b) = Fin (a + b)"

fun fneg :: "pyfloat \<Rightarrow> pyfloat" where
  "fneg (Fin a) = Fin (- a)"
| "fneg PInf = NInf"
| "fneg NInf = PInf"
| "fneg NaN = NaN"

definition fsub :: "pyfloat \<Rightarrow> pyfloat \<Rightarrow> pyfloat" where
  "fsub x y = fadd x (fneg y)"

text \<open>The sign of a real as an infinity; zero times an infinity is NaN.\<close>

definition inf_of_sign :: "real \<Rightarrow> pyfloat" where
  "inf_of_sign a = (if a > 0 then PInf else if a < 0 then NInf else NaN)"

fun fmul :: "pyfloat \<Rightarrow> pyfloat \<Rightarrow> pyfloat" where
  "fmul NaN y = NaN"
| "fmul x NaN = NaN"
| "fmul (Fin a) (Fin b) = Fin (a * b)"
| "fmul (Fin a) PInf = inf_of_sign a"
| "fmul (Fin a) NInf = inf_of_sign (- a)"
| "fmul PInf (Fin b) = inf_of_sign b"
| "fmul NInf (Fin b) = inf_of_sign (- b)"
| "fmul PInf PInf = PInf"
| "fmul NInf NInf = PInf"
| "fmul PInf NInf = NInf"
| "fmul NInf PInf = NInf"

text \<open>
  Division of a float by a Python int (converted to \<open>+0.0\<close> when it is 0): numpy
  returns an infinity or NaN on division by zero, with a warning, and does not raise.
\<close>

fun fdiv_int :: "pyfloat \<Rightarrow> int \<Rightarrow> pyfloat" where
  "fdiv_int NaN n = NaN"
| "fdiv_int PInf n = (if n < 0 then NInf else PInf)"
| "fdiv_int NInf n = (if n < 0 then PInf else NInf)"
| "fdiv_int (Fin a) n = (if n = 0 then inf_of_sign a else Fin (a / of_int n))"

fun fabs :: "pyfloat \<Rightarrow> pyfloat" where
  "fabs (Fin a) = Fin \<bar>a\<bar>"
| "fabs PInf = PInf"
| "fabs NInf = PInf"
| "fabs NaN = NaN"

fun fsqrt :: "pyfloat \<Rightarrow> pyfloat" where
  "fsqrt (Fin a) = (if a < 0 then NaN else Fin (sqrt a))"
| "fsqrt PInf = PInf"
| "fsqrt NInf = NaN"
| "fsqrt NaN = NaN"

text \<open>The comparison \<open>x > y\<close>: false whenever a NaN is involved.\<close>

fun fgt :: "pyfloat \<Rightarrow> pyfloat \<Rightarrow> bool" where
  "fgt NaN y = False"
| "fgt x NaN = False"
| "fgt NInf y = False"
| "fgt x PInf = False"
| "fgt PInf y = True"
| "fgt x NInf = True"
| "fgt (Fin a) (Fin b) = (a > b)"

section \<open>numpy reductions and Python slices\<close>

text \<open>\<open>data[:k]\<close> for a Python int \<open>k\<close>: a negative bound counts from the end.\<close>

definition py_slice_to :: "'a list \<Rightarrow> int \<Rightarrow> 'a list" where
  "py_slice_to xs k =
     (let n = int (length xs); j = (if k < 0 then k + n else k)
      in take (nat j) xs)"

definition np_sum :: "pyfloat list \<Rightarrow> pyfloat" where
  "np_sum xs = foldl fadd (Fin 0) xs"

text \<open>\<open>np.mean\<close>: the sum divided by the element count; NaN on an empty array.\<close>

definition np_mean :: "pyfloat list \<Rightarrow> pyfloat" where
  "np_mean xs = fdiv_int (np_sum xs) (int (length xs))"

text \<open>
  \<open>np.std\<close> with its default \<open>ddof = 0\<close>: the square root of the mean of the squared
  deviations from the mean (the population standard deviation).
\<close>

definition np_std :: "pyfloat list \<Rightarrow> pyfloat" where
  "np_std xs =
     (let arrmean = np_mean xs;
          x = map (\<lambda>a. fsub a arrmean) xs
      in fsqrt (np_mean (map (\<lambda>d. fmul d d) x)))"

section \<open>The baseline engine: \<open>EMA\<close>\<close>

text \<open>
  One iteration of the \<open>for i in range(len(data))\<close> loop of \<open>EMA\<close>. The loop state is
  \<open>(moving_avg, ema, anomalies)\<close>.
\<close>

definition EMA_body ::
  "pyfloat list \<Rightarrow> int \<Rightarrow> real \<Rightarrow> nat \<Rightarrow> pyfloat \<times> pyfloat list \<times> nat list
     \<Rightarrow> pyfloat \<times> pyfloat list \<times> nat list" where
  "EMA_body data window_size threshold i s =
     (case s of (moving_avg, ema, anomalies) \<Rightarrow>
        let moving_avg' =
              (if int i \<ge> window_size
               then fdiv_int (fadd (fmul moving_avg (Fin (of_int (window_size - 1)))) (data ! i))
                      window_size
               else moving_avg);
            ema' = ema @ [moving_avg'];
            anomalies' =
              (if fgt (fabs (fsub (data ! i) moving_avg'))
                      (fmul (Fin threshold) (np_std (py_slice_to data (int i + 1))))
               then anomalies @ [i] else anomalies)
        in (moving_avg', ema', anomalies'))"

text \<open>The loop state after the first \<open>n\<close> iterations.\<close>

definition EMA_iter ::
  "pyfloat list \<Rightarrow> int \<Rightarrow> real \<Rightarrow> nat \<Rightarrow> pyfloat \<times> pyfloat list \<times> nat list" where
  "EMA_iter data window_size threshold n =
     fold (EMA_body data window_size threshold) [0..<n]
       (np_mean (py_slice_to data window_size), [], [])"

definition EMA :: "pyfloat list \<Rightarrow> int \<Rightarrow> real \<Rightarrow> pyfloat list \<times> nat list" where
  "EMA data window_size threshold =
     (case EMA_iter data window_size threshold (length data) of
        (moving_avg, ema, anomalies) \<Rightarrow> (ema, anomalies))"

text \<open>
  The loop written out per index: \<open>avg data window_size n\<close> is \<open>moving_avg\<close> after
  \<open>n\<close> iterations, and \<open>flagged data window_size threshold i\<close> is the test that
  iteration \<open>i\<close> makes before appending \<open>i\<close> to \<open>anomalies\<close>.
\<close>

fun avg :: "pyfloat list \<Rightarrow> int \<Rightarrow> nat \<Rightarrow> pyfloat" where
  "avg data window_size 0 = np_mean (py_slice_to data window_size)"
| "avg data window_size (Suc n) =
     (if int n \<ge> window_size
      then fdiv_int (fadd (fmul (avg data window_size n) (Fin (of_int (window_size - 1)))) (data ! n))
             window_size
      else avg data window_size n)"

definition flagged :: "pyfloat list \<Rightarrow> int \<Rightarrow> real \<Rightarrow> nat \<Rightarrow> bool" where
  "flagged data window_size threshold i =
     fgt (fabs (fsub (data ! i) (avg data window_size (Suc i))))
         (fmul (Fin threshold) (np_std (py_slice_to data (int i + 1))))"

text \<open>
  The arrays that one call of \<open>EMA\<close> passes to \<open>np.std\<close>, one per iteration, and the
  number of samples \<open>np.std\<close> reads over the whole call.
\<close>

definition std_arguments :: "pyfloat list \<Rightarrow> pyfloat list list" where
  "std_arguments data = map (\<lambda>i. py_slice_to data (int i + 1)) [0..<length data]"

definition std_work :: "pyfloat list \<Rightarrow> nat" where
  "std_work data = sum_list (map length (std_arguments data))"

section \<open>The validator: \<open>preprocess\<close>\<close>

text \<open>
  \<open>preprocess\<close> calls Python's built-in \<open>float\<close> on the line read by \<open>input()\<close>.
  The conversion is modelled on strings of code points below 256: surrounding
  whitespace is ignored, an underscore may stand between two digits, and the rest is
  an optionally signed decimal number with optional fraction and exponent, or one of
  the words \<open>inf\<close>, \<open>infinity\<close>, \<open>nan\<close> in any letter case. The value of a decimal
  numeral is taken exactly (Python rounds it to the nearest \<open>float64\<close>).
\<close>

datatype error = ValueError | AttributeError

definition is_space :: "char \<Rightarrow> bool" where
  "is_space c = (of_char c \<in> {9, 10, 11, 12, 13, 32, 133, 160 :: nat})"

definition is_digit :: "char \<Rightarrow> bool" where
  "is_digit c = (48 \<le> (of_char c :: nat) \<and> (of_char c :: nat) \<le> 57)"

definition digit_val :: "char \<Rightarrow> nat" where
  "digit_val c = of_char c - 48"

definition lower :: "char \<Rightarrow> char" where
  "lower c = (if 65 \<le> (of_char c :: nat) \<and> (of_char c :: nat) \<le> 90
              then char_of (of_char c + 32 :: nat) else c)"

definition strip :: "string \<Rightarrow> string" where
  "strip s = rev (dropWhile is_space (rev (dropWhile is_space s)))"

text \<open>
  Underscores: each must directly follow a digit and directly precede a digit; the
  underscores are then dropped. \<open>prev\<close> is the character before the current one.
\<close>

fun underscores_ok :: "char option \<Rightarrow> string \<Rightarrow> bool" where
  "underscores_ok prev [] = (prev \<noteq> Some (CHR ''_''))"
| "underscores_ok prev (c # cs) =
     (if c = CHR ''_''
      then (case prev of None \<Rightarrow> False | Some p \<Rightarrow> is_digit p \<and> underscores_ok (Some c) cs)
      else (if prev = Some (CHR ''_'') then is_digit c else True) \<and> underscores_ok (Some c) cs)"

definition nat_of_digits :: "string \<Rightarrow> nat" where
  "nat_of_digits ds = foldl (\<lambda>a c. 10 * a + digit_val c) 0 ds"

text \<open>Splits an optional sign off: the flag says whether the sign was \<open>-\<close>.\<close>

definition split_sign :: "string \<Rightarrow> bool \<times> string" where
  "split_sign s =
     (case s of
        [] \<Rightarrow> (False, [])
      | c # cs \<Rightarrow> if c = CHR ''-'' then (True, cs)
                  else if c = CHR ''+'' then (False, cs) else (False, s))"

text \<open>
  The exponent part, given what follows the mantissa: nothing, or \<open>e\<close>/\<open>E\<close>, an
  optional sign and at least one digit up to the end of the string. The result is the
  factor the mantissa is multiplied by.
\<close>

definition parse_exponent :: "string \<Rightarrow> real option" where
  "parse_exponent s =
     (case s of
        [] \<Rightarrow> Some 1
      | c # cs \<Rightarrow>
          if c = CHR ''e'' \<or> c = CHR ''E''
          then (case split_sign cs of (eneg, r) \<Rightarrow>
                  if r \<noteq> [] \<and> list_all is_digit r
                  then Some (if eneg then 1 / 10 ^ nat_of_digits r else 10 ^ nat_of_digits r)
                  else None)
          else None)"

definition parse_number :: "string \<Rightarrow> real option" where
  "parse_number s =
     (let ip = takeWhile is_digit s; r1 = dropWhile is_digit s;
          dot = (r1 \<noteq> [] \<and> hd r1 = CHR ''.'');
          r2 = (if dot then tl r1 else r1);
          fp = (if dot then takeWhile is_digit r2 else []);
          r3 = (if dot then dropWhile is_digit r2 else r2)
      in if ip = [] \<and> fp = [] then None
         else (case parse_exponent r3 of
                 None \<Rightarrow> None
               | Some f \<Rightarrow> Some (real (nat_of_digits (ip @ fp)) / 10 ^ length fp * f)))"

definition py_float :: "string \<Rightarrow> pyfloat option" where
  "py_float raw =
     (if \<not> underscores_ok None raw then None
      else case split_sign (strip (filter (\<lambda>c. c \<noteq> CHR ''_'') raw)) of (neg, r) \<Rightarrow>
        if map lower r = ''inf'' \<or> map lower r = ''infinity''
        then Some (if neg then NInf else PInf)
        else if map lower r = ''nan'' then Some NaN
        else (case parse_number r of
                None \<Rightarrow> None
              | Some v \<Rightarrow> Some (Fin (if neg then - v else v))))"

text \<open>
  \<open>preprocess\<close>: the \<open>ValueError\<close> of \<open>float\<close> is caught and raised again with the
  program's message; every value \<open>float\<close> returns is returned as it is.
\<close>

definition preprocess :: "string \<Rightarrow> error + pyfloat" where
  "preprocess new_data_point =
     (case py_float new_data_point of None \<Rightarrow> Inl ValueError | Some x \<Rightarrow> Inr x)"

section \<open>The store: \<open>update\<close>\<close>

text \<open>
  The store \<open>data\<close> is a numpy array throughout the program (\<open>generate_data_stream\<close>
  and \<open>np.append\<close> both return one). \<open>np.append\<close> builds a new array and leaves
  \<open>data\<close> alone. The guard reads the length of \<open>data\<close>, the array before the append,
  and the eviction \<open>data.pop(0)\<close> is applied to that array: a numpy array has no method
  \<open>pop\<close>, so the call raises \<open>AttributeError\<close>.
\<close>

definition update :: "pyfloat \<Rightarrow> pyfloat list \<Rightarrow> real \<Rightarrow> error + pyfloat list" where
  "update new_data_point data max_window_size =
     (let new_data = data @ [new_data_point]
      in if real (length data) > max_window_size then Inl AttributeError
         else Inr new_data)"

text \<open>The store after appending a list of samples one by one, oldest first.\<close>

fun update_all :: "pyfloat list \<Rightarrow> pyfloat list \<Rightarrow> real \<Rightarrow> error + pyfloat list" where
  "update_all [] data max_window_size = Inr data"
| "update_all (x # xs) data max_window_size =
     (case update x data max_window_size of
        Inl e \<Rightarrow> Inl e
      | Inr data' \<Rightarrow> update_all xs data' max_window_size)"

section \<open>The session: \<open>process_data\<close> and the input loop\<close>

text \<open>
  \<open>process_data\<close> calls \<open>update\<close> and \<open>EMA\<close> with their default arguments
  (\<open>max_window_size = 1e6\<close>, \<open>window_size = 50\<close>, \<open>threshold = 3\<close>); the arguments
  \<open>ema\<close> and \<open>anomalies\<close> are not read. Plotting (\<open>visualize\<close>) has no effect on the
  values and is left out.
\<close>

definition process_data ::
  "pyfloat \<Rightarrow> pyfloat list \<Rightarrow> pyfloat list \<Rightarrow> nat list
     \<Rightarrow> error + (pyfloat list \<times> pyfloat list \<times> nat list)" where
  "process_data new_data_point data ema anomalies =
     (case update new_data_point data 1000000 of
        Inl e \<Rightarrow> Inl e
      | Inr data_store \<Rightarrow>
          (case EMA data_store 50 3 of
             (updated_ema, updated_anomalies) \<Rightarrow>
               Inr (data_store, updated_ema, updated_anomalies)))"

text \<open>The module-level variables the input loop reads and rebinds.\<close>

record session =
  data :: "pyfloat list"
  ema :: "pyfloat list"
  anomalies :: "nat list"
  cnt :: nat

text \<open>
  The state when the loop is entered: \<open>ema, anomalies = EMA(data, 10, 1.5)\<close> and
  \<open>cnt = data.shape[0]\<close>.
\<close>

definition init_session :: "pyfloat list \<Rightarrow> session" where
  "init_session d =
     (case EMA d 10 1.5 of
        (e, a) \<Rightarrow> \<lparr>data = d, ema = e, anomalies = a, cnt = length d\<rparr>)"

text \<open>
  One pass of the \<open>while True\<close> loop on the line \<open>raw\<close>, up to \<open>cnt += 1\<close> (the
  specification's \<open>submit\<close>). An exception leaves the loop with the variables as they
  were when it was raised; otherwise the result says whether the new point was reported
  as an anomaly.
\<close>

definition submit :: "string \<Rightarrow> session \<Rightarrow> (error + bool) \<times> session" where
  "submit raw s =
     (case preprocess raw of
        Inl e \<Rightarrow> (Inl e, s)
      | Inr new_data_point \<Rightarrow>
          (case process_data new_data_point (data s) (ema s) (anomalies s) of
             Inl e \<Rightarrow> (Inl e, s)
           | Inr (d, e, a) \<Rightarrow>
               (Inr (cnt s \<in> set a),
                \<lparr>data = d, ema = e, anomalies = a, cnt = cnt s + 1\<rparr>)))"

text \<open>The loop over a list of input lines; it stops at the first exception.\<close>

fun submit_all :: "string list \<Rightarrow> session \<Rightarrow> error option \<times> session" where
  "submit_all [] s = (None, s)"
| "submit_all (raw # raws) s =
     (case submit raw s of
        (Inl e, s') \<Rightarrow> (Some e, s')
      | (Inr b, s') \<Rightarrow> submit_all raws s')"

section \<open>The loop of \<open>EMA\<close>, index by index\<close>

lemma EMA_iter_Suc:
  "EMA_iter xs w t (Suc n) = EMA_body xs w t n (EMA_iter xs w t n)"
  by (simp add: EMA_iter_def)

lemma EMA_body_avg:
  "EMA_body xs w t n (avg xs w n, E, A) =
     (avg xs w (Suc n), E @ [avg xs w (Suc n)], if flagged xs w t n then A @ [n] else A)"
  by (simp add: EMA_body_def flagged_def Let_def)

lemma EMA_iter_eq:
  "EMA_iter xs w t n =
     (avg xs w n, map (\<lambda>i. avg xs w (Suc i)) [0..<n], filter (flagged xs w t) [0..<n])"
proof (induction n)
  case 0
  show ?case by (simp add: EMA_iter_def)
next
  case (Suc n)
  show ?case
    unfolding EMA_iter_Suc Suc.IH EMA_body_avg by simp
qed

lemma EMA_eq:
  "EMA xs w t =
     (map (\<lambda>i. avg xs w (Suc i)) [0..<length xs], filter (flagged xs w t) [0..<length xs])"
  by (simp add: EMA_def EMA_iter_eq)

lemma length_fst_EMA: "length (fst (EMA xs w t)) = length xs"
  by (simp add: EMA_eq)

lemma fst_EMA_nth: "i < length xs \<Longrightarrow> fst (EMA xs w t) ! i = avg xs w (Suc i)"
  by (simp add: EMA_eq)

lemma snd_EMA_mem: "i \<in> set (snd (EMA xs w t)) \<longleftrightarrow> i < length xs \<and> flagged xs w t i"
  by (auto simp add: EMA_eq)

lemma py_slice_to_nonneg: "0 \<le> k \<Longrightarrow> py_slice_to ys k = take (nat k) ys"
  by (simp add: py_slice_to_def Let_def)

lemma py_slice_to_Suc: "py_slice_to ys (int i + 1) = take (Suc i) ys"
  by (simp add: py_slice_to_def Let_def nat_add_distrib)

lemma avg_seed: "int n \<le> w \<Longrightarrow> avg xs w n = np_mean (py_slice_to xs w)"
  by (induction n) auto

lemma fgt_irrefl: "\<not> fgt x x"
  by (cases x) auto

lemmas EMA_eval =
  EMA_eq flagged_def np_std_def np_mean_def np_sum_def py_slice_to_def fsub_def

section \<open>The reductions on finite samples\<close>

lemma foldl_fadd_Fin: "foldl fadd (Fin a) (map Fin rs) = Fin (a + sum_list rs)"
  by (induction rs arbitrary: a) (simp_all add: add.assoc)

lemma np_sum_Fin: "np_sum (map Fin rs) = Fin (sum_list rs)"
  by (simp add: np_sum_def foldl_fadd_Fin)

text \<open>On finite samples \<open>np.mean\<close> is the arithmetic mean.\<close>

lemma np_mean_Fin:
  "rs \<noteq> [] \<Longrightarrow> np_mean (map Fin rs) = Fin (sum_list rs / real (length rs))"
  by (simp add: np_mean_def np_sum_Fin)

text \<open>
  On finite samples \<open>np.std\<close> is the population standard deviation: the square root of
  the mean squared deviation from the mean.
\<close>

lemma np_std_Fin:
  assumes "rs \<noteq> []"
  shows "np_std (map Fin rs) =
           Fin (sqrt (sum_list (map (\<lambda>r. (r - sum_list rs / real (length rs)) *
                                         (r - sum_list rs / real (length rs))) rs)
                      / real (length rs)))"
proof -
  let ?m = "sum_list rs / real (length rs)"
  let ?sq = "map (\<lambda>r. (r - ?m) * (r - ?m)) rs"
  have "map (\<lambda>d. fmul d d) (map (\<lambda>a. fsub a (Fin ?m)) (map Fin rs)) = map Fin ?sq"
    by (simp add: fsub_def)
  moreover have "?sq \<noteq> []" using assms by simp
  moreover have "0 \<le> sum_list ?sq" by (intro sum_list_nonneg) auto
  then have "\<not> sum_list ?sq / real (length rs) < 0"
    by (simp add: not_less)
  ultimately show ?thesis
    using assms np_mean_Fin [of ?sq]
    by (simp add: np_std_def np_mean_Fin del: map_map)
qed

text \<open>
  With \<open>window_size \<ge> 1\<close> the moving average of a non-empty store of finite samples is
  finite at every step: no special value arises.
\<close>

lemma avg_Fin:
  assumes "1 \<le> w" and "rs \<noteq> []"
  shows "k \<le> length rs \<Longrightarrow> \<exists>b. avg (map Fin rs) w k = Fin b"
proof (induction k)
  case 0
  have "py_slice_to (map Fin rs) w = map Fin (take (nat w) rs)"
    using assms(1) by (simp add: py_slice_to_nonneg take_map)
  moreover have "take (nat w) rs \<noteq> []" using assms by simp
  ultimately show ?case by (simp add: np_mean_Fin)
next
  case (Suc k)
  then obtain b where "avg (map Fin rs) w k = Fin b" and "k < length rs" by auto
  then show ?case using assms(1) by simp
qed

lemma np_std_single: "np_std [x] = (case x of Fin a \<Rightarrow> Fin 0 | _ \<Rightarrow> NaN)"
  by (cases x) (simp_all add: np_std_def np_mean_def np_sum_def fsub_def inf_of_sign_def)




lemma np_mean_single: "np_mean [Fin c] = Fin c"
  by (simp add: np_mean_def np_sum_def)

section \<open>The baseline\<close>

text \<open>
  C1. For every store, every \<open>window_size \<ge> 1\<close> and every index \<open>i\<close> of the store:
  while \<open>i < window_size\<close> the baseline at \<open>i\<close> is the mean of the first
  \<open>min(window_size, len(store))\<close> samples (the same value over that whole prefix); from
  \<open>i = window_size\<close> on it is
  \<open>(baseline[i-1] * (window_size - 1) + store[i]) / window_size\<close>.
\<close>

theorem EMA_baseline:
  assumes "1 \<le> w" and "i < length xs"
  shows "fst (EMA xs w t) ! i =
           (if int i < w then np_mean (take (min (nat w) (length xs)) xs)
            else fdiv_int
                   (fadd (fmul (fst (EMA xs w t) ! (i - 1)) (Fin (of_int (w - 1)))) (xs ! i)) w)"
proof (cases "int i < w")
  case True
  then have "avg xs w (Suc i) = np_mean (py_slice_to xs w)"
    by (intro avg_seed) simp
  also have "py_slice_to xs w = take (min (nat w) (length xs)) xs"
    using assms(1) by (simp add: py_slice_to_nonneg min_def)
  finally show ?thesis
    using assms(2) True by (simp add: fst_EMA_nth)
next
  case False
  with assms(1) obtain j where j: "i = Suc j" by (cases i) auto
  with assms(2) have "fst (EMA xs w t) ! (i - 1) = avg xs w i"
    by (simp add: fst_EMA_nth)
  then show ?thesis
    using assms(2) False by (simp add: fst_EMA_nth)
qed

theorem EMA_baseline_witness:
  "(1::int) \<le> 2 \<and> 2 < length [Fin 1, Fin 3, Fin 8] \<and>
   fst (EMA [Fin 1, Fin 3, Fin 8] 2 3) ! 0 = Fin 2 \<and>
   fst (EMA [Fin 1, Fin 3, Fin 8] 2 3) ! 1 = Fin 2 \<and>
   fst (EMA [Fin 1, Fin 3, Fin 8] 2 3) ! 2 = Fin 5"
  using EMA_baseline [of 2 0 "[Fin 1, Fin 3, Fin 8]" 3]
        EMA_baseline [of 2 1 "[Fin 1, Fin 3, Fin 8]" 3]
        EMA_baseline [of 2 2 "[Fin 1, Fin 3, Fin 8]" 3]
  by (simp add: np_mean_def np_sum_def)

section \<open>The anomaly test\<close>

text \<open>
  C2. For every store, window size and threshold, an index \<open>i\<close> of the store is in the
  anomaly indices exactly when \<open>|store[i] - baseline[i]|\<close> is strictly greater than
  the threshold times the standard deviation of \<open>store[0..i]\<close> (inclusive); when the
  two sides are equal, \<open>i\<close> is not anomalous.
\<close>

theorem EMA_anomaly_test:
  assumes "i < length xs"
  shows "(i \<in> set (snd (EMA xs w t)) \<longleftrightarrow>
            fgt (fabs (fsub (xs ! i) (fst (EMA xs w t) ! i)))
                (fmul (Fin t) (np_std (take (Suc i) xs)))) \<and>
         (fabs (fsub (xs ! i) (fst (EMA xs w t) ! i)) = fmul (Fin t) (np_std (take (Suc i) xs))
            \<longrightarrow> i \<notin> set (snd (EMA xs w t)))"
proof -
  have m: "i \<in> set (snd (EMA xs w t)) \<longleftrightarrow>
            fgt (fabs (fsub (xs ! i) (fst (EMA xs w t) ! i)))
                (fmul (Fin t) (np_std (take (Suc i) xs)))"
    using assms by (simp add: snd_EMA_mem fst_EMA_nth flagged_def py_slice_to_Suc)
  show ?thesis unfolding m by (simp add: fgt_irrefl)
qed

text \<open>
  On the store \<open>[0, 2]\<close> with window size 2 the baseline is 1 and the standard deviation
  of the whole store is 1: with threshold 1 the two sides at index 1 are equal.
\<close>

theorem EMA_anomaly_test_witness:
  "1 < length [Fin 0, Fin 2] \<and>
   fabs (fsub ([Fin 0, Fin 2] ! 1) (fst (EMA [Fin 0, Fin 2] 2 1) ! 1)) = Fin 1 \<and>
   fmul (Fin 1) (np_std (take (Suc 1) [Fin 0, Fin 2])) = Fin 1 \<and>
   1 \<notin> set (snd (EMA [Fin 0, Fin 2] 2 1))"
proof -
  have a: "fabs (fsub ([Fin 0, Fin 2] ! 1) (fst (EMA [Fin 0, Fin 2] 2 1) ! 1)) = Fin 1"
    by (simp add: EMA_eval)
  have b: "fmul (Fin 1) (np_std (take (Suc 1) [Fin 0, Fin 2])) = Fin 1"
    by (simp add: EMA_eval)
  have "1 \<notin> set (snd (EMA [Fin 0, Fin 2] 2 1))"
    using EMA_anomaly_test [of 1 "[Fin 0, Fin 2]" 2 1] a b by simp
  with a b show ?thesis by simp
qed

section \<open>Shape of the output\<close>

lemma process_data_length:
  "process_data x d e a = Inr (d', e', a') \<Longrightarrow> length e' = length d'"
  using length_fst_EMA [of d' 50 3]
  by (auto simp add: process_data_def split: sum.splits prod.splits)

lemma submit_length:
  "length (ema s) = length (data s) \<Longrightarrow>
     length (ema (snd (submit raw s))) = length (data (snd (submit raw s)))"
  by (auto simp add: submit_def split: sum.splits prod.splits dest: process_data_length)

lemma submit_all_length:
  "length (ema s) = length (data s) \<Longrightarrow>
     length (ema (snd (submit_all raws s))) = length (data (snd (submit_all raws s)))"
proof (induction raws arbitrary: s)
  case Nil
  then show ?case by simp
next
  case (Cons raw raws)
  from submit_length [OF Cons.prems, of raw]
  show ?case
    by (cases "submit raw s") (auto split: sum.splits intro: Cons.IH)
qed

lemma init_session_length: "length (ema (init_session d)) = length (data (init_session d))"
  using length_fst_EMA [of d 10 "1.5"] by (auto simp add: init_session_def split: prod.splits)

text \<open>
  C3. For every store, window size and threshold, the baseline sequence has exactly
  \<open>len(store)\<close> entries, and the anomaly indices are strictly increasing and each less
  than \<open>len(store)\<close>; the baseline held by the session has the length of the store
  after any sequence of submitted lines.
\<close>

theorem EMA_output_shape:
  "length (fst (EMA xs w t)) = length xs \<and>
   sorted_wrt (<) (snd (EMA xs w t)) \<and>
   (\<forall>i \<in> set (snd (EMA xs w t)). i < length xs) \<and>
   length (ema (snd (submit_all raws (init_session xs)))) =
     length (data (snd (submit_all raws (init_session xs))))"
  by (simp add: EMA_eq sorted_wrt_filter submit_all_length init_session_length)

lemma py_float_4: "py_float ''4'' = Some (Fin 4)"
  by code_simp

lemma data_init_session: "data (init_session d) = d"
  by (simp add: init_session_def split: prod.splits)

lemma submit_data:
  "py_float raw = Some x \<Longrightarrow> real (length (data s)) \<le> 1000000 \<Longrightarrow>
     data (snd (submit raw s)) = data s @ [x]"
  by (simp add: submit_def preprocess_def process_data_def update_def split: prod.splits)

text \<open>
  On the store \<open>[0, 2]\<close> with window size 2 and threshold 3 index 0 is flagged; after
  the line \<open>4\<close> is submitted to a session started on that store, the store and the
  baseline both have three entries.
\<close>

theorem EMA_output_shape_witness:
  "0 \<in> set (snd (EMA [Fin 0, Fin 2] 2 3)) \<and> (0::nat) < length [Fin 0, Fin 2] \<and>
   length (fst (EMA [Fin 0, Fin 2] 2 3)) = 2 \<and>
   data (snd (submit_all [''4''] (init_session [Fin 0, Fin 2]))) = [Fin 0, Fin 2, Fin 4] \<and>
   length (ema (snd (submit_all [''4''] (init_session [Fin 0, Fin 2])))) = 3"
proof -
  have a: "0 \<in> set (snd (EMA [Fin 0, Fin 2] 2 3))"
    by (simp add: snd_EMA_mem flagged_def np_std_def np_mean_def np_sum_def py_slice_to_def
        fsub_def)
  have d: "data (snd (submit_all [''4''] (init_session [Fin 0, Fin 2]))) = [Fin 0, Fin 2, Fin 4]"
    using submit_data [OF py_float_4, of "init_session [Fin 0, Fin 2]"]
    by (cases "submit ''4'' (init_session [Fin 0, Fin 2])")
       (auto simp add: data_init_session split: sum.splits)
  from EMA_output_shape [of "[Fin 0, Fin 2]" 2 3 "[''4'']"] a d
  show ?thesis by simp
qed

section \<open>Constant streams\<close>






section \<open>Growing the store\<close>

lemma avg_append:
  assumes "py_slice_to (xs @ [x]) w = py_slice_to xs w"
  shows "k \<le> length xs \<Longrightarrow> avg (xs @ [x]) w k = avg xs w k"
  using assms by (induction k) (simp_all add: nth_append)

lemma flagged_append:
  assumes "py_slice_to (xs @ [x]) w = py_slice_to xs w" and "i < length xs"
  shows "flagged (xs @ [x]) w t i = flagged xs w t i"
  using assms avg_append [OF assms(1), of "Suc i"]
  by (simp add: flagged_def py_slice_to_Suc nth_append)

lemma EMA_append:
  assumes "py_slice_to (xs @ [x]) w = py_slice_to xs w"
  shows "snd (EMA (xs @ [x]) w t) =
           snd (EMA xs w t) @ (if flagged (xs @ [x]) w t (length xs) then [length xs] else [])"
proof -
  have "filter (flagged (xs @ [x]) w t) [0..<length xs] = filter (flagged xs w t) [0..<length xs]"
    using assms by (intro filter_cong refl flagged_append) simp_all
  then show ?thesis by (simp add: EMA_eq)
qed

text \<open>
  C7, as stated, fails while the store is shorter than the window: the seed is the mean
  of all samples so far and moves with each new one. On the store \<open>[0, 2]\<close> with the
  window size 50 and threshold 3 that \<open>process_data\<close> uses, index 0 is flagged (the
  seed is 1); after appending \<open>-2\<close> the seed is 0 and index 0 is no longer flagged.
\<close>

theorem anomalies_unflagged_counterexample:
  "0 \<in> set (snd (EMA [Fin 0, Fin 2] 50 3)) \<and>
   0 \<notin> set (snd (EMA ([Fin 0, Fin 2] @ [Fin (- 2)]) 50 3))"
  by (simp add: snd_EMA_mem flagged_def np_std_def np_mean_def np_sum_def py_slice_to_def
      fsub_def)

text \<open>
  C7, amended. For every store that already holds at least \<open>window_size \<ge> 1\<close> samples
  and every newly appended sample, the anomaly indices over the grown store begin with
  the anomaly indices over the store before the append: every index flagged before is
  still flagged.
\<close>

theorem anomalies_extend:
  assumes "1 \<le> w" and "nat w \<le> length xs"
  shows "prefix (snd (EMA xs w t)) (snd (EMA (xs @ [x]) w t)) \<and>
         set (snd (EMA xs w t)) \<subseteq> set (snd (EMA (xs @ [x]) w t))"
proof -
  have "py_slice_to (xs @ [x]) w = py_slice_to xs w"
    using assms by (simp add: py_slice_to_nonneg)
  from EMA_append [OF this] show ?thesis by simp
qed

theorem anomalies_extend_witness:
  "(1::int) \<le> 2 \<and> nat 2 \<le> length [Fin 0, Fin 2] \<and>
   0 \<in> set (snd (EMA [Fin 0, Fin 2] 2 3)) \<and>
   0 \<in> set (snd (EMA ([Fin 0, Fin 2] @ [Fin 100]) 2 3))"
proof -
  have a: "0 \<in> set (snd (EMA [Fin 0, Fin 2] 2 3))"
    by (simp add: snd_EMA_mem flagged_def np_std_def np_mean_def np_sum_def py_slice_to_def
        fsub_def)
  with anomalies_extend [of 2 "[Fin 0, Fin 2]" 3 "Fin 100"]
  have "0 \<in> set (snd (EMA ([Fin 0, Fin 2] @ [Fin 100]) 2 3))" by auto
  with a show ?thesis by simp
qed

section \<open>Index 0\<close>

text \<open>
  C5, as stated, fails: the baseline at index 0 is the mean of the first
  \<open>window_size\<close> samples, not the first sample, while the standard deviation of the
  one-sample prefix is 0. On the store \<open>[0, 2]\<close> with window size 2 and threshold 3 the
  baseline is 1 and index 0 is flagged.
\<close>

theorem index_0_flagged_counterexample:
  "1 \<le> length [Fin 0, Fin 2] \<and> (1::int) \<le> 2 \<and> (0::real) < 3 \<and>
   0 \<in> set (snd (EMA [Fin 0, Fin 2] 2 3))"
  by (simp add: snd_EMA_mem flagged_def np_std_def np_mean_def np_sum_def py_slice_to_def
      fsub_def)

text \<open>
  C5, amended. For every non-empty store, every window size and every threshold, index
  0 is anomalous exactly when the first sample is finite and the baseline at index 0 is
  a value other than the first sample (and not NaN); the baseline at index 0 is the mean
  of the first \<open>min(window_size, len(store))\<close> samples, not the first sample. So index
  0 is never anomalous when \<open>window_size = 1\<close>, or \<open>window_size \<ge> 1\<close> and the store
  holds a single sample. For \<open>window_size = 1\<close> and the store \<open>[5]\<close> the baseline is
  \<open>[5]\<close> and no index is anomalous.
\<close>

theorem index_0_flagged_iff:
  assumes "xs \<noteq> []"
  shows "(0 \<in> set (snd (EMA xs w t)) \<longleftrightarrow>
            (\<exists>a. xs ! 0 = Fin a \<and> fst (EMA xs w t) ! 0 \<noteq> Fin a \<and> fst (EMA xs w t) ! 0 \<noteq> NaN)) \<and>
         (1 \<le> w \<and> (w = 1 \<or> length xs = 1) \<longrightarrow> 0 \<notin> set (snd (EMA xs w t))) \<and>
         EMA [Fin 5] 1 t = ([Fin 5], [])"
proof -
  obtain x xs' where xs: "xs = x # xs'" using assms by (cases xs) auto
  let ?b = "fst (EMA xs w t) ! 0"
  have b: "?b = avg xs w (Suc 0)" using assms by (simp add: fst_EMA_nth)
  have std: "np_std (py_slice_to xs (int 0 + 1)) = (case x of Fin a \<Rightarrow> Fin 0 | _ \<Rightarrow> NaN)"
    unfolding py_slice_to_Suc by (simp add: xs np_std_single)
  have fl: "flagged xs w t 0 \<longleftrightarrow> (\<exists>a. x = Fin a \<and> ?b \<noteq> Fin a \<and> ?b \<noteq> NaN)"
    unfolding flagged_def std b [symmetric]
    by (cases x; cases ?b) (auto simp add: xs fsub_def)
  have m: "0 \<in> set (snd (EMA xs w t)) \<longleftrightarrow>
      (\<exists>a. xs ! 0 = Fin a \<and> ?b \<noteq> Fin a \<and> ?b \<noteq> NaN)"
    using fl assms by (simp add: snd_EMA_mem xs)
  have one: "?b = Fin a" if "1 \<le> w \<and> (w = 1 \<or> length xs = 1)" and "xs ! 0 = Fin a" for a
  proof -
    from that have "py_slice_to xs w = [Fin a]"
      by (auto simp add: py_slice_to_nonneg xs)
    with that show ?thesis by (simp add: b np_mean_single)
  qed
  have five: "EMA [Fin 5] 1 t = ([Fin 5], [])"
    by (simp add: EMA_eq flagged_def np_std_def np_mean_def np_sum_def py_slice_to_def fsub_def)
  show ?thesis using m one five by blast
qed

theorem index_0_flagged_iff_witness:
  "[Fin 0, Fin 2] \<noteq> [] \<and> (1::int) \<le> 1 \<and>
   fst (EMA [Fin 0, Fin 2] 2 3) ! 0 = Fin 1 \<and>
   0 \<in> set (snd (EMA [Fin 0, Fin 2] 2 3)) \<and>
   0 \<notin> set (snd (EMA [Fin 0, Fin 2] 1 3))"
proof -
  have b: "fst (EMA [Fin 0, Fin 2] 2 3) ! 0 = Fin 1"
    by (simp add: EMA_eq np_mean_def np_sum_def py_slice_to_def)
  from index_0_flagged_iff [of "[Fin 0, Fin 2]" 2 3] index_0_flagged_iff [of "[Fin 0, Fin 2]" 1 3] b
  show ?thesis by auto
qed


section \<open>The store never evicts\<close>

lemma update_appends: "update x d m = Inr d' \<Longrightarrow> d' = d @ [x]"
  by (auto simp add: update_def Let_def split: if_splits)

lemma update_all_appends: "update_all xs d m = Inr d' \<Longrightarrow> d' = d @ xs"
proof (induction xs arbitrary: d)
  case Nil
  then show ?case by simp
next
  case (Cons x xs)
  then obtain d1 where u: "update x d m = Inr d1" and r: "update_all xs d1 m = Inr d'"
    by (auto split: sum.splits)
  from update_appends [OF u] Cons.IH [OF r] show ?case by simp
qed

text \<open>
  C4 does not hold of \<open>update\<close>. With \<open>max_window_size = 1\<close> and an empty store, two
  appended samples give a store of length 2 (nothing is evicted from the array that is
  returned), and a third append raises \<open>AttributeError\<close>.
\<close>

theorem update_no_eviction:
  "update_all [Fin 1, Fin 2] [] 1 = Inr [Fin 1, Fin 2] \<and>
   update_all [Fin 1, Fin 2, Fin 3] [] 1 = Inl AttributeError"
  by (simp add: update_def)

section \<open>Work done by the dispersion estimate\<close>

lemma flagged_std_arguments:
  "i < length xs \<Longrightarrow>
     flagged xs w t i =
       fgt (fabs (fsub (xs ! i) (avg xs w (Suc i)))) (fmul (Fin t) (np_std (std_arguments xs ! i)))"
  by (simp add: flagged_def std_arguments_def)

lemma std_work_upt:
  "n \<le> length xs \<Longrightarrow>
     2 * sum_list (map (\<lambda>i. length (take (Suc i) xs)) [0..<n]) = n * (n + 1)"
  by (induction n) (simp_all add: min_def)

text \<open>
  Each iteration passes the whole prefix to \<open>np.std\<close>, so a call of \<open>EMA\<close> on \<open>N\<close>
  samples has \<open>np.std\<close> read \<open>N (N + 1) / 2\<close> samples.
\<close>

lemma std_work_quadratic: "2 * std_work xs = length xs * (length xs + 1)"
  using std_work_upt [of "length xs" xs]
  by (simp add: std_work_def std_arguments_def py_slice_to_Suc comp_def)

text \<open>
  C9 does not hold of \<open>EMA\<close>: the standard deviation is computed afresh from the
  prefix at every index. On a store of 4 samples \<open>np.std\<close> reads 10 samples.
\<close>

theorem std_work_example:
  "std_work [Fin 1, Fin 2, Fin 3, Fin 4] = 10"
  by (simp add: std_work_def std_arguments_def py_slice_to_def upt_rec)

section \<open>The validator\<close>




lemma py_float_abc: "py_float ''abc'' = None"
  by code_simp




section \<open>A rejected line leaves the session as it was\<close>

text \<open>
  C8. When a submitted line fails validation, \<open>ValueError\<close> is raised and the session
  is left as it was: the store has the same length and contents before and after.
\<close>

theorem submit_invalid_unchanged:
  assumes "preprocess raw = Inl e"
  shows "submit raw s = (Inl ValueError, s) \<and>
         data (snd (submit raw s)) = data s \<and>
         length (data (snd (submit raw s))) = length (data s)"
  using assms by (auto simp add: submit_def preprocess_def split: option.splits)

theorem submit_invalid_unchanged_witness:
  "preprocess ''abc'' = Inl ValueError \<and>
   submit ''abc'' \<lparr>data = [Fin 1, Fin 2], ema = [Fin 1, Fin 1], anomalies = [], cnt = 2\<rparr>
     = (Inl ValueError, \<lparr>data = [Fin 1, Fin 2], ema = [Fin 1, Fin 1], anomalies = [], cnt = 2\<rparr>)"
proof -
  have a: "preprocess ''abc'' = Inl ValueError"
    by (simp add: preprocess_def py_float_abc)
  from submit_invalid_unchanged [OF a] a show ?thesis by simp
qed

end
